theory Spec2Isabelle
  imports Complex_Main "HOL-Library.AList"
begin

section \<open>The Vessel Tree Generator module of SEEGPlanner\<close>

text \<open>
  The module is a scripted 3D Slicer module (\<^verbatim>\<open>VesselTreeGenerator.py\<close>): a logic class with
  three filter methods (\<^verbatim>\<open>applyMedianFilter\<close>, \<^verbatim>\<open>applySigmoidFilter\<close>,
  \<^verbatim>\<open>MaurerDistance\<close>) and a widget class whose event handlers drive them.

  The Python objects are modelled as follows.
  \<^item> A MRML node is an object on a heap: \<open>nodes\<close> maps a node id to the node, and the scene
    is the list of the ids it holds, in the order they were added. Two Python variables that
    refer to one node are two copies of one id, so aliasing is visible.
  \<^item> \<^verbatim>\<open>None\<close> is \<open>None\<close>; a node variable is a \<open>node_id option\<close>.
  \<^item> An exception is the outcome \<open>Raised e s\<close>, carrying the state reached when it was
    raised; normal completion is \<open>Done s\<close>.
  \<^item> The numerical filters of SimpleITK, the Segment Editor effects and the formatting of
    floats are not code of the module: they are the fields of a record \<open>host\<close> that every
    operation takes as a parameter. Each call of the module into the host that has no
    modelled state of its own is appended to a trace.
  \<^item> Python floats are modelled by \<open>real\<close>; the module itself only stores, compares and
    passes them on.
  \<^item> \<^verbatim>\<open>print\<close>, \<^verbatim>\<open>logging.info\<close> and \<^verbatim>\<open>time.time\<close> are diagnostic output and left out.
\<close>

subsection \<open>Volumes, nodes and errors\<close>

type_synonym node_id = nat

record image =
  spacing :: "real \<times> real \<times> real"
  voxels :: "real list"

datatype node_class = ScalarVolumeNode | LabelMapVolumeNode | SegmentationNode | ColorTableNode

fun GetClassName :: "node_class \<Rightarrow> string" where
  "GetClassName ScalarVolumeNode = ''vtkMRMLScalarVolumeNode''"
| "GetClassName LabelMapVolumeNode = ''vtkMRMLLabelMapVolumeNode''"
| "GetClassName SegmentationNode = ''vtkMRMLSegmentationNode''"
| "GetClassName ColorTableNode = ''vtkMRMLColorTableNode''"

record node =
  node_name :: string
  node_class :: node_class
  node_image :: image
  segment_ids :: "string list"
  color_node_id :: "node_id option"

datatype error =
    ValueError string
  | TypeError string
  | RuntimeError string
  | MRMLNodeNotFoundException string
  | AttributeError string

datatype 's outcome =
    is_Done: Done (state_of: 's)
  | is_Raised: Raised (raised: error) (state_of: 's)

fun error_message :: "error \<Rightarrow> string" where
  "error_message (ValueError m) = m"
| "error_message (TypeError m) = m"
| "error_message (RuntimeError m) = m"
| "error_message (MRMLNodeNotFoundException m) = m"
| "error_message (AttributeError m) = m"

subsection \<open>Filter settings\<close>

record sigmoid_filter =
  sf_alpha :: real
  sf_beta :: real
  sf_outputMaximum :: real
  sf_outputMinimum :: real

record maurer_filter =
  mf_useImageSpacing :: bool
  mf_squaredDistance :: bool
  mf_backgroundValue :: real
  mf_insideIsPositive :: bool

subsection \<open>The host application\<close>

datatype call =
    MedianExecute nat image
  | SigmoidExecute sigmoid_filter image
  | MaurerExecute maurer_filter image
  | SetSliceViewerLayers "node_id option" "node_id option"
  | ErrorDisplay string
  | InfoDisplay string
  | ProcessEvents
  | EffectApply string "(string \<times> string) list"
  | CreateDefaultDisplayNodes node_id
  | SetVisibility2D node_id bool
  | SetVisibility3D node_id bool
  | SetPreferredDisplayRepresentationName3D node_id string
  | CreateClosedSurfaceRepresentation node_id
  | SetDisplayVisibility node_id nat
  | ResetCamera
  | ExportSegmentsToLabelmapNode node_id "string list" node_id node_id
  | DisplayNodeModified node_id
  | NodeModified node_id
  | RangeWidgetSetRange real real
  | RangeWidgetSetMinimumValue real
  | RangeWidgetSetMaximumValue real

record world =
  nodes :: "node_id \<Rightarrow> node"
  scene :: "node_id list"
  next_id :: node_id
  trace :: "call list"

record host =
  medianExecute :: "nat \<Rightarrow> image \<Rightarrow> image"
  sigmoidExecute :: "sigmoid_filter \<Rightarrow> image \<Rightarrow> image"
  maurerExecute :: "maurer_filter \<Rightarrow> image \<Rightarrow> image"
  exportSegments :: "node \<Rightarrow> image \<Rightarrow> image"
  effectAvailable :: "string \<Rightarrow> bool"
  format_g :: "real \<Rightarrow> string"
  format_d :: "nat \<Rightarrow> string"
  scalarRange :: "image \<Rightarrow> real \<times> real"
  addEmptySegment :: "string list \<Rightarrow> string \<Rightarrow> string"

definition emit :: "call \<Rightarrow> world \<Rightarrow> world" where
  "emit c w = w\<lparr>trace := trace w @ [c]\<rparr>"

definition new_node :: "node_class \<Rightarrow> string \<Rightarrow> node" where
  "new_node cls name =
     \<lparr>node_name = name, node_class = cls,
      node_image = \<lparr>spacing = (1, 1, 1), voxels = []\<rparr>,
      segment_ids = [], color_node_id = None\<rparr>"

definition AddNewNodeByClass :: "node_class \<Rightarrow> string \<Rightarrow> world \<Rightarrow> node_id \<times> world" where
  "AddNewNodeByClass cls name w =
     (next_id w,
      w\<lparr>nodes := (nodes w)(next_id w := new_node cls name),
        scene := scene w @ [next_id w],
        next_id := Suc (next_id w)\<rparr>)"

definition GetFirstNodeByName :: "world \<Rightarrow> string \<Rightarrow> node_id option" where
  "GetFirstNodeByName w name = find (\<lambda>i. node_name (nodes w i) = name) (scene w)"

definition getNode :: "world \<Rightarrow> string \<Rightarrow> node_id option" where
  "getNode w name = find (\<lambda>i. node_name (nodes w i) = name) (rev (scene w))"

definition RemoveNode :: "node_id \<Rightarrow> world \<Rightarrow> world" where
  "RemoveNode i w = w\<lparr>scene := removeAll i (scene w)\<rparr>"

definition PullVolumeFromSlicer :: "world \<Rightarrow> node_id \<Rightarrow> image" where
  "PullVolumeFromSlicer w i = node_image (nodes w i)"

definition PushVolumeToSlicer :: "image \<Rightarrow> node_id \<Rightarrow> world \<Rightarrow> world" where
  "PushVolumeToSlicer img i w = w\<lparr>nodes := (nodes w)(i := (nodes w i)\<lparr>node_image := img\<rparr>)\<rparr>"

definition IsA :: "node \<Rightarrow> node_class \<Rightarrow> bool" where
  "IsA n cls = (node_class n = cls \<or> (node_class n = LabelMapVolumeNode \<and> cls = ScalarVolumeNode))"

subsection \<open>VesselTreeGeneratorLogic\<close>

definition applyMedianFilter ::
  "host \<Rightarrow> node_id option \<Rightarrow> node_id option \<Rightarrow> nat \<Rightarrow> bool \<Rightarrow> world \<Rightarrow> world outcome" where
  "applyMedianFilter h inputVolume outputVolume radius showResults w =
     (case inputVolume of
        None \<Rightarrow> Raised (ValueError ''Input or output volume is invalid'') w
      | Some inp \<Rightarrow>
     (case outputVolume of
        None \<Rightarrow> Raised (ValueError ''Input or output volume is invalid'') w
      | Some out \<Rightarrow>
          let inputImage = PullVolumeFromSlicer w inp;
              w1 = emit (MedianExecute radius inputImage) w;
              outputImage = medianExecute h radius inputImage;
              w2 = PushVolumeToSlicer outputImage out w1
          in Done (if showResults then emit (SetSliceViewerLayers (Some out) None) w2 else w2)))"

definition applySigmoidFilter ::
  "host \<Rightarrow> node_id option \<Rightarrow> node_id option \<Rightarrow> real \<Rightarrow> real \<Rightarrow> real \<Rightarrow> real \<Rightarrow> bool
     \<Rightarrow> world \<Rightarrow> world outcome" where
  "applySigmoidFilter h inputVolume outputVolume alpha beta outputMinimum outputMaximum showResults w =
     (case inputVolume of
        None \<Rightarrow> Raised (ValueError ''Input or output volume is invalid'') w
      | Some inp \<Rightarrow>
     (case outputVolume of
        None \<Rightarrow> Raised (ValueError ''Input or output volume is invalid'') w
      | Some out \<Rightarrow>
          let inputImage = PullVolumeFromSlicer w inp;
              sigmoidFilter = \<lparr>sf_alpha = alpha, sf_beta = beta,
                               sf_outputMaximum = outputMaximum,
                               sf_outputMinimum = outputMinimum\<rparr>;
              w1 = emit (SigmoidExecute sigmoidFilter inputImage) w;
              outputImage = sigmoidExecute h sigmoidFilter inputImage;
              w2 = PushVolumeToSlicer outputImage out w1
          in Done (if showResults then emit (SetSliceViewerLayers (Some out) None) w2 else w2)))"

definition MaurerDistance ::
  "host \<Rightarrow> node_id option \<Rightarrow> node_id option \<Rightarrow> bool \<Rightarrow> world \<Rightarrow> world outcome" where
  "MaurerDistance h inputVolume outputVolume showResults w =
     (case inputVolume of
        None \<Rightarrow> Raised (ValueError ''Input or output volume is invalid'') w
      | Some inp \<Rightarrow>
     (case outputVolume of
        None \<Rightarrow> Raised (ValueError ''Input or output volume is invalid'') w
      | Some out \<Rightarrow>
          if \<not> IsA (nodes w inp) LabelMapVolumeNode
          then Raised (TypeError (''Input volume must be a binary labelmap. Got ''
                                  @ GetClassName (node_class (nodes w inp)) @ ''.'')) w
          else
            let inputImage = PullVolumeFromSlicer w inp;
                maurerFilter = \<lparr>mf_useImageSpacing = True, mf_squaredDistance = False,
                                mf_backgroundValue = 0, mf_insideIsPositive = False\<rparr>;
                w1 = emit (MaurerExecute maurerFilter inputImage) w;
                outputImage = maurerExecute h maurerFilter inputImage;
                w2 = PushVolumeToSlicer outputImage out w1
            in Done (if showResults then emit (SetSliceViewerLayers (Some out) None) w2 else w2)))"

subsection \<open>VesselTreeGeneratorWidget\<close>

text \<open>
  The fields of the widget object, the values of the user interface elements its handlers
  read, the state of the hidden Segment Editor widget (\<^verbatim>\<open>segmentEditorWidget3D\<close>) with the
  parameters of its effects, and the host's world. The mask that an effect writes into a
  segment is not represented: applying an effect is recorded in the trace together with the
  effect's parameters at that moment.
\<close>

record widget =
  medianRadius :: "nat option"
  segmentationNode3D :: "node_id option"
  segmentId3D :: "string option"
  lastThresholdMin :: "real option"
  lastThresholdMax :: "real option"
  inputSelector :: "node_id option"
  outputSelector :: "node_id option"
  inputSelectorSegmentation :: "node_id option"
  SliderWidgetAlpha :: real
  SliderWidgetBeta :: real
  saveIntermediateVolume :: bool
  ed_segmentationNode :: "node_id option"
  ed_sourceVolumeNode :: "node_id option"
  ed_currentSegmentID :: "string option"
  ed_activeEffect :: "string option"
  ed_parameters :: "((string \<times> string) \<times> string) list"
  world :: world

text \<open>Python's truth value of a string variable that may be \<^verbatim>\<open>None\<close>.\<close>

fun truthy :: "string option \<Rightarrow> bool" where
  "truthy None = False"
| "truthy (Some s) = (s \<noteq> [])"

definition in_world :: "(world \<Rightarrow> world) \<Rightarrow> widget \<Rightarrow> widget" where
  "in_world f s = s\<lparr>world := f (world s)\<rparr>"

definition setActiveEffectByName :: "host \<Rightarrow> string \<Rightarrow> widget \<Rightarrow> widget" where
  "setActiveEffectByName h name s =
     s\<lparr>ed_activeEffect := (if effectAvailable h name then Some name else None)\<rparr>"

definition setParameter :: "string \<Rightarrow> string \<Rightarrow> string \<Rightarrow> widget \<Rightarrow> widget" where
  "setParameter effect name val s =
     s\<lparr>ed_parameters := AList.update (effect, name) val (ed_parameters s)\<rparr>"

definition effect_parameters :: "string \<Rightarrow> widget \<Rightarrow> (string \<times> string) list" where
  "effect_parameters effect s =
     map (\<lambda>kv. (snd (fst kv), snd kv)) (filter (\<lambda>kv. fst (fst kv) = effect) (ed_parameters s))"

definition onApply :: "string \<Rightarrow> widget \<Rightarrow> widget" where
  "onApply effect s = in_world (emit (EffectApply effect (effect_parameters effect s))) s"

definition select_in_editor :: "node_id option \<Rightarrow> node_id \<Rightarrow> string option \<Rightarrow> widget \<Rightarrow> widget" where
  "select_in_editor seg volumeNode sid s =
     s\<lparr>ed_segmentationNode := seg, ed_sourceVolumeNode := Some volumeNode,
       ed_currentSegmentID := sid\<rparr>"

definition onNoiseReductionLow :: "bool \<Rightarrow> widget \<Rightarrow> widget" where
  "onNoiseReductionLow checked s = (if checked then s\<lparr>medianRadius := Some 1\<rparr> else s)"

definition onNoiseReductionHigh :: "bool \<Rightarrow> widget \<Rightarrow> widget" where
  "onNoiseReductionHigh checked s = (if checked then s\<lparr>medianRadius := Some 2\<rparr> else s)"

text \<open>
  \<^verbatim>\<open>onApplySettings\<close>. The part after the median stage (sigmoid, display, removal of the
  temporary node) is \<open>onApplySettings_sigmoid\<close>; \<open>medianResultNode\<close> and
  \<open>tempMedianNode\<close> are the handler's local variables of these names. The host's
  \<^verbatim>\<open>tryWithErrorDisplay\<close> wrapper shows the message of an exception and lets it
  propagate; the model keeps the propagation.
\<close>

definition onApplySettings_sigmoid ::
  "host \<Rightarrow> node_id \<Rightarrow> node_id option \<Rightarrow> node_id \<Rightarrow> widget \<Rightarrow> widget outcome" where
  "onApplySettings_sigmoid h medianResultNode tempMedianNode outputVolume s =
     (let alpha = SliderWidgetAlpha s; beta = SliderWidgetBeta s
      in case applySigmoidFilter h (Some medianResultNode) (Some outputVolume) alpha beta 0 1 True
                (world s) of
           Raised e w \<Rightarrow> Raised e (s\<lparr>world := w\<rparr>)
         | Done w \<Rightarrow>
             let w1 = emit (SetSliceViewerLayers (Some outputVolume) None) w
             in Done (s\<lparr>world := (case tempMedianNode of
                                     None \<Rightarrow> w1
                                   | Some t \<Rightarrow> RemoveNode t w1)\<rparr>))"

definition onApplySettings :: "host \<Rightarrow> widget \<Rightarrow> widget outcome" where
  "onApplySettings h s =
     (case inputSelector s of
        None \<Rightarrow> Raised (ValueError ''No volumes selected!'') s
      | Some inputVolume \<Rightarrow>
     (case outputSelector s of
        None \<Rightarrow> Raised (ValueError ''No volumes selected!'') s
      | Some outputVolume \<Rightarrow>
     (case medianRadius s of
        None \<Rightarrow> onApplySettings_sigmoid h inputVolume None outputVolume s
      | Some radius \<Rightarrow>
          if saveIntermediateVolume s then
            (let (intermediateNode, w1) =
                   (case GetFirstNodeByName (world s) ''intermediate_median'' of
                      Some existingNode \<Rightarrow> (existingNode, world s)
                    | None \<Rightarrow> AddNewNodeByClass ScalarVolumeNode ''intermediate_median'' (world s))
             in (case applyMedianFilter h (Some inputVolume) (Some intermediateNode) radius False w1 of
                   Raised e w \<Rightarrow> Raised e (s\<lparr>world := w\<rparr>)
                 | Done w \<Rightarrow>
                     onApplySettings_sigmoid h intermediateNode None outputVolume
                       (s\<lparr>world := w\<rparr>)))
          else
            (let (tempMedianNode, w1) =
                   AddNewNodeByClass ScalarVolumeNode ''TempMedianForSigmoid'' (world s)
             in (case applyMedianFilter h (Some inputVolume) (Some tempMedianNode) radius False w1 of
                   Raised e w \<Rightarrow> Raised e (s\<lparr>world := w\<rparr>)
                 | Done w \<Rightarrow>
                     onApplySettings_sigmoid h tempMedianNode (Some tempMedianNode) outputVolume
                       (s\<lparr>world := w\<rparr>))))))"

text \<open>
  \<^verbatim>\<open>onAddSegmentation\<close>. The segments of a segmentation node are the list of their ids;
  \<^verbatim>\<open>GetSegment\<close> finds a segment when its id is in the list, and \<^verbatim>\<open>AddEmptySegment\<close>
  appends the id the host chooses. A volume node whose image has no voxels stands for a node
  without image data, for which \<^verbatim>\<open>GetImageData()\<close> is \<^verbatim>\<open>None\<close> and the call of
  \<^verbatim>\<open>GetScalarRange\<close> on it raises. The handler sets the range slider with the slider's
  signals blocked, so \<^verbatim>\<open>onThresholdValuesChanged\<close> is not called from here; the three
  calls on the slider are recorded in the trace.
\<close>

fun GetSegment :: "node \<Rightarrow> string option \<Rightarrow> bool" where
  "GetSegment n None = False"
| "GetSegment n (Some sid) = (sid \<in> set (segment_ids n))"

definition AddEmptySegment :: "host \<Rightarrow> node_id \<Rightarrow> string \<Rightarrow> world \<Rightarrow> string \<times> world" where
  "AddEmptySegment h segNode name w =
     (let sid = addEmptySegment h (segment_ids (nodes w segNode)) name
      in (sid, w\<lparr>nodes := (nodes w)(segNode := (nodes w segNode)
                     \<lparr>segment_ids := segment_ids (nodes w segNode) @ [sid]\<rparr>)\<rparr>))"

definition onAddSegmentation :: "host \<Rightarrow> widget \<Rightarrow> widget outcome" where
  "onAddSegmentation h s =
     (case outputSelector s of
        None \<Rightarrow> Raised (ValueError ''Please select an Output volume first.'') s
      | Some volumeNode \<Rightarrow>
          let (segNode, s1) =
                (case segmentationNode3D s of
                   Some n \<Rightarrow> (n, s)
                 | None \<Rightarrow>
                     (let (n, w) = AddNewNodeByClass SegmentationNode ''VesselsSegmentation'' (world s)
                      in (n, s\<lparr>segmentationNode3D := Some n, world := w\<rparr>)));
              s2 = in_world
                     (emit (SetVisibility3D segNode False) \<circ>
                      emit (SetVisibility2D segNode True) \<circ>
                      emit (CreateDefaultDisplayNodes segNode)) s1;
              s3 = (if \<not> truthy (segmentId3D s2)
                       \<or> \<not> GetSegment (nodes (world s2) segNode) (segmentId3D s2)
                    then (let (sid, w) = AddEmptySegment h segNode ''Vessels'' (world s2)
                          in s2\<lparr>segmentId3D := Some sid, world := w\<rparr>)
                    else s2);
              s4 = setActiveEffectByName h ''Threshold''
                     (select_in_editor (segmentationNode3D s3) volumeNode (segmentId3D s3) s3);
              s5 = in_world (emit (SetSliceViewerLayers (Some volumeNode) (Some segNode))) s4;
              imageData = node_image (nodes (world s5) volumeNode)
          in if voxels imageData = []
             then Raised (AttributeError
                            ([CHR 0x27] @ ''NoneType' object has no attribute ''
                             @ [CHR 0x27] @ ''GetScalarRange'' @ [CHR 0x27])) s5
             else
               (let (low, high) = scalarRange h imageData;
                    s6 = in_world
                           (emit (RangeWidgetSetMaximumValue high) \<circ>
                            emit (RangeWidgetSetMinimumValue low) \<circ>
                            emit (RangeWidgetSetRange low high)) s5
                in Done (s6\<lparr>lastThresholdMin := Some low, lastThresholdMax := Some high\<rparr>)))"

text \<open>\<^verbatim>\<open>onThresholdValuesChanged\<close>, the handler of the threshold range slider (the preview).\<close>

definition onThresholdValuesChanged :: "host \<Rightarrow> real \<Rightarrow> real \<Rightarrow> widget \<Rightarrow> widget outcome" where
  "onThresholdValuesChanged h minimum maximum s0 =
     (let s = s0\<lparr>lastThresholdMin := Some minimum, lastThresholdMax := Some maximum\<rparr>
      in if segmentationNode3D s = None \<or> \<not> truthy (segmentId3D s) then Done s
         else
           (case outputSelector s of
              None \<Rightarrow> Done s
            | Some volumeNode \<Rightarrow>
                let s1 = select_in_editor (segmentationNode3D s) volumeNode (segmentId3D s) s;
                    s2 = setActiveEffectByName h ''Threshold'' s1
                in (case ed_activeEffect s2 of
                      None \<Rightarrow> Raised (RuntimeError ''Threshold effect is not available'') s2
                    | Some effect \<Rightarrow>
                        (let s3 = setParameter effect ''MinimumThreshold'' (format_g h minimum) s2;
                             s4 = setParameter effect ''MaximumThreshold'' (format_g h maximum) s3
                         in Done (in_world (emit ProcessEvents) s4)))))"

text \<open>
  \<^verbatim>\<open>onApplyThresholdShow3D\<close>, the handler of the finalize button. \<open>onApplyThresholdShow3D_try\<close>
  is the body of its \<^verbatim>\<open>try\<close> block after the first check (which returns instead of
  raising) and \<open>show3D\<close> the block's calls after the two effects; the handler catches
  every exception of the block, shows it and returns.
\<close>

definition show3D :: "node_id \<Rightarrow> widget \<Rightarrow> widget" where
  "show3D segNode s =
     in_world
       (emit ResetCamera \<circ>
        emit (SetDisplayVisibility segNode 1) \<circ>
        emit (SetPreferredDisplayRepresentationName3D segNode ''Closed surface'') \<circ>
        emit (SetVisibility3D segNode True) \<circ>
        emit (CreateClosedSurfaceRepresentation segNode) \<circ>
        emit (CreateDefaultDisplayNodes segNode)) s"

definition onApplyThresholdShow3D_try :: "host \<Rightarrow> real \<Rightarrow> real \<Rightarrow> widget \<Rightarrow> widget outcome" where
  "onApplyThresholdShow3D_try h thMin thMax s =
     (case segmentationNode3D s of
        None \<Rightarrow> Raised (ValueError ''No segmentation. Use 'Add Segmentation' first.'') s
      | Some segNode \<Rightarrow>
          if \<not> truthy (segmentId3D s)
          then Raised (ValueError ''No segmentation. Use 'Add Segmentation' first.'') s
          else
     (case outputSelector s of
        None \<Rightarrow> Raised (ValueError ''Please select an Output volume.'') s
      | Some volumeNode \<Rightarrow>
          let s1 = select_in_editor (segmentationNode3D s) volumeNode (segmentId3D s) s;
              s2 = setActiveEffectByName h ''Threshold'' s1
          in (case ed_activeEffect s2 of
                None \<Rightarrow> Raised (RuntimeError ''Threshold effect is not available'') s2
              | Some effect \<Rightarrow>
                  (let s3 = setParameter effect ''MinimumThreshold'' (format_g h thMin) s2;
                       s4 = setParameter effect ''MaximumThreshold'' (format_g h thMax) s3;
                       s5 = onApply effect s4;
                       s6 = setActiveEffectByName h ''Islands'' s5
                   in (case ed_activeEffect s6 of
                         None \<Rightarrow> Raised (RuntimeError ''Islands effect is not available'') s6
                       | Some effect \<Rightarrow>
                           (let s7 = setParameter effect ''Operation'' ''KEEP_LARGEST_ISLAND'' s6;
                                s8 = setParameter effect ''MinimumSize'' ''1000'' s7;
                                s9 = onApply effect s8;
                                s10 = s9\<lparr>ed_activeEffect := None\<rparr>
                            in Done (show3D segNode s10)))))))"

definition success_message :: "host \<Rightarrow> widget \<Rightarrow> real \<Rightarrow> real \<Rightarrow> string" where
  "success_message h s thMin thMax =
     ''Vessel Tree successfully created!\<newline>\<newline>''
     @ ''Median radius: ''
     @ (case medianRadius s of None \<Rightarrow> ''None'' | Some r \<Rightarrow> format_d h r) @ ''\<newline>''
     @ ''Sigmoid Alpha: '' @ format_g h (SliderWidgetAlpha s) @ ''\<newline>''
     @ ''Sigmoid Beta: '' @ format_g h (SliderWidgetBeta s) @ ''\<newline>''
     @ ''Threshold Min: '' @ format_g h thMin @ ''\<newline>''
     @ ''Threshold Max: '' @ format_g h thMax"

definition onApplyThresholdShow3D :: "host \<Rightarrow> widget \<Rightarrow> widget outcome" where
  "onApplyThresholdShow3D h s =
     (case lastThresholdMin s of
        None \<Rightarrow> Done (in_world (emit (ErrorDisplay ''Move the threshold slider at least once.'')) s)
      | Some thMin \<Rightarrow>
     (case lastThresholdMax s of
        None \<Rightarrow> Done (in_world (emit (ErrorDisplay ''Move the threshold slider at least once.'')) s)
      | Some thMax \<Rightarrow>
     (case onApplyThresholdShow3D_try h thMin thMax s of
        Raised e s' \<Rightarrow>
          Done (in_world (emit (ErrorDisplay
                  (''Failed to apply threshold and show 3D model.\<newline>'' @ error_message e))) s')
      | Done s' \<Rightarrow>
          Done (in_world (emit (InfoDisplay (success_message h s' thMin thMax))) s'))))"

text \<open>
  \<^verbatim>\<open>onComputeMaurerDistance\<close>. \<open>LabelMapBinary\<close> is the expression
  \<^verbatim>\<open>sitk.Cast(LabelMapImg > 0, sitk.sitkUInt8)\<close> of the handler. A node added to the scene
  always exists here, so the two checks of the handler for a failed creation have no branch.
  \<^verbatim>\<open>slicer.util.getNode\<close> collects the nodes of the scene by name, a later node
  replacing an earlier one of the same name, and raises when there is none: \<open>getNode\<close>
  is the last node of the name.
\<close>

definition LabelMapBinary :: "image \<Rightarrow> image" where
  "LabelMapBinary LabelMapImg =
     LabelMapImg\<lparr>voxels := map (\<lambda>v. if v > 0 then 1 else 0) (voxels LabelMapImg)\<rparr>"

definition ExportSegmentsToLabelmap :: "host \<Rightarrow> node_id \<Rightarrow> node_id \<Rightarrow> node_id \<Rightarrow> world \<Rightarrow> world" where
  "ExportSegmentsToLabelmap h segmentationNode labelmapNode refVolume w =
     PushVolumeToSlicer
       (exportSegments h (nodes w segmentationNode) (node_image (nodes w refVolume)))
       labelmapNode
       (emit (ExportSegmentsToLabelmapNode segmentationNode
                (segment_ids (nodes w segmentationNode)) labelmapNode refVolume) w)"

definition set_color_node :: "node_id \<Rightarrow> node_id \<Rightarrow> world \<Rightarrow> world" where
  "set_color_node i c w = w\<lparr>nodes := (nodes w)(i := (nodes w i)\<lparr>color_node_id := Some c\<rparr>)\<rparr>"

definition onComputeMaurerDistance :: "host \<Rightarrow> widget \<Rightarrow> widget outcome" where
  "onComputeMaurerDistance h s =
     (case inputSelectorSegmentation s of
        None \<Rightarrow> Raised (ValueError ''Please select a Segmentation node from Step 2 first.'') s
      | Some segmentationNode \<Rightarrow>
          if \<not> IsA (nodes (world s) segmentationNode) SegmentationNode
          then Raised (TypeError ''Input node must be a Segmentation Node.'') s
          else
     (case outputSelector s of
        None \<Rightarrow> Raised (ValueError ''Please select an Output volume from Step 1 first.'') s
      | Some refVolume \<Rightarrow>
          if length (segment_ids (nodes (world s) segmentationNode)) < 1
          then Raised (ValueError ''The selected segmentation node does not contain any segments.'') s
          else
            let (labelmapNode, w1) =
                  AddNewNodeByClass LabelMapVolumeNode ''Vessels_Labelmap'' (world s);
                w2 = ExportSegmentsToLabelmap h segmentationNode labelmapNode refVolume w1;
                LabelMapImg = PullVolumeFromSlicer w2 labelmapNode;
                w3 = PushVolumeToSlicer (LabelMapBinary LabelMapImg) labelmapNode w2;
                outName = node_name (nodes w3 segmentationNode) @ ''_MaurerDistance'';
                (maurerOutputNode, w4) = AddNewNodeByClass ScalarVolumeNode outName w3
            in (case MaurerDistance h (Some labelmapNode) (Some maurerOutputNode) True w4 of
                  Raised e w \<Rightarrow> Raised e (s\<lparr>world := w\<rparr>)
                | Done w5 \<Rightarrow>
                    (case getNode w5 ''HotToColdRainbow'' of
                       None \<Rightarrow>
                         Raised (MRMLNodeNotFoundException
                                   (''could not find nodes in the scene by name or id ''
                                    @ [CHR 0x27] @ ''HotToColdRainbow'' @ [CHR 0x27]))
                                (s\<lparr>world := w5\<rparr>)
                     | Some colorNde \<Rightarrow>
                         Done (s\<lparr>world :=
                                 (emit (NodeModified maurerOutputNode) \<circ>
                                  emit (DisplayNodeModified maurerOutputNode) \<circ>
                                  set_color_node maurerOutputNode colorNde) w5\<rparr>)))))"

subsection \<open>Sessions\<close>

text \<open>
  A session is the list of the events the widget receives after it has been set up: the
  signals that the module connects to its handlers, and the user's settings of the elements
  the handlers read. An exception that leaves a handler is reported by the application,
  which goes on with the state reached. \<open>never_previewed\<close> holds of a session in which
  the threshold slider has sent no change, that is, in which the preview handler has not
  run.
\<close>

datatype event =
    NoiseReductionLow bool
  | NoiseReductionHigh bool
  | ApplySettings
  | AddSegmentation
  | ThresholdValuesChanged real real
  | ApplyThresholdShow3D
  | ComputeMaurerDistance
  | SelectInput "node_id option"
  | SelectOutput "node_id option"
  | SelectSegmentation "node_id option"
  | SetAlpha real
  | SetBeta real
  | SetSaveIntermediate bool

fun handle :: "host \<Rightarrow> widget \<Rightarrow> event \<Rightarrow> widget" where
  "handle h s (NoiseReductionLow checked) = onNoiseReductionLow checked s"
| "handle h s (NoiseReductionHigh checked) = onNoiseReductionHigh checked s"
| "handle h s ApplySettings = state_of (onApplySettings h s)"
| "handle h s AddSegmentation = state_of (onAddSegmentation h s)"
| "handle h s (ThresholdValuesChanged minimum maximum) =
     state_of (onThresholdValuesChanged h minimum maximum s)"
| "handle h s ApplyThresholdShow3D = state_of (onApplyThresholdShow3D h s)"
| "handle h s ComputeMaurerDistance = state_of (onComputeMaurerDistance h s)"
| "handle h s (SelectInput n) = s\<lparr>inputSelector := n\<rparr>"
| "handle h s (SelectOutput n) = s\<lparr>outputSelector := n\<rparr>"
| "handle h s (SelectSegmentation n) = s\<lparr>inputSelectorSegmentation := n\<rparr>"
| "handle h s (SetAlpha a) = s\<lparr>SliderWidgetAlpha := a\<rparr>"
| "handle h s (SetBeta b) = s\<lparr>SliderWidgetBeta := b\<rparr>"
| "handle h s (SetSaveIntermediate b) = s\<lparr>saveIntermediateVolume := b\<rparr>"

definition run :: "host \<Rightarrow> event list \<Rightarrow> widget \<Rightarrow> widget" where
  "run h evs s = foldl (handle h) s evs"

fun is_preview :: "event \<Rightarrow> bool" where
  "is_preview (ThresholdValuesChanged minimum maximum) = True"
| "is_preview e = False"

definition never_previewed :: "event list \<Rightarrow> bool" where
  "never_previewed evs = (filter is_preview evs = [])"

subsection \<open>Concrete states\<close>

text \<open>
  \<open>init_widget\<close> is the widget after \<^verbatim>\<open>__init__\<close> and \<^verbatim>\<open>setup\<close>: every field of the
  object is \<^verbatim>\<open>None\<close>, the two sigmoid sliders stand at the defaults of the parameter node
  (60 and 200) and no node is selected.

  \<open>demo_host\<close> and \<open>demo_world\<close> are a host and a scene for evaluating the handlers on
  concrete inputs. The filters of \<open>demo_host\<close> are simple maps over the voxels that keep
  their arguments visible in the result; they stand in for the filters of SimpleITK only in
  these evaluations.
\<close>

definition init_widget :: "world \<Rightarrow> widget" where
  "init_widget w =
     \<lparr>medianRadius = None, segmentationNode3D = None, segmentId3D = None,
      lastThresholdMin = None, lastThresholdMax = None,
      inputSelector = None, outputSelector = None, inputSelectorSegmentation = None,
      SliderWidgetAlpha = 60, SliderWidgetBeta = 200, saveIntermediateVolume = False,
      ed_segmentationNode = None, ed_sourceVolumeNode = None, ed_currentSegmentID = None,
      ed_activeEffect = None, ed_parameters = [], world = w\<rparr>"

definition demo_host :: host where
  "demo_host =
     \<lparr>medianExecute = (\<lambda>r img. img\<lparr>voxels := map (\<lambda>v. v + real r) (voxels img)\<rparr>),
      sigmoidExecute = (\<lambda>f img. img\<lparr>voxels :=
         map (\<lambda>v. sf_outputMinimum f
                    + (sf_outputMaximum f - sf_outputMinimum f) * (v - sf_beta f) / sf_alpha f)
             (voxels img)\<rparr>),
      maurerExecute = (\<lambda>f img. img\<lparr>voxels :=
         map (\<lambda>v. if v = mf_backgroundValue f then 1 else - 1) (voxels img)\<rparr>),
      exportSegments = (\<lambda>n ref. ref\<lparr>voxels :=
         map (\<lambda>v. if v > 100 then real (length (segment_ids n)) else 0) (voxels ref)\<rparr>),
      effectAvailable = (\<lambda>name. name = ''Threshold'' \<or> name = ''Islands''),
      format_g = (\<lambda>x. if x = 3 then ''3'' else if x = 5 then ''5''
                      else if x = 20 then ''20'' else if x = 259 then ''259''
                      else if x = 60 then ''60'' else if x = 200 then ''200'' else ''x''),
      format_d = (\<lambda>n. if n = 1 then ''1'' else ''2''),
      scalarRange = (\<lambda>img. case voxels img of
                                [] \<Rightarrow> (0, 0)
                              | v # vs \<Rightarrow> (fold min vs v, fold max vs v)),
      addEmptySegment = (\<lambda>ids name. if name \<in> set ids then name @ ''_1'' else name)\<rparr>"

definition demo_nodes :: "node_id \<Rightarrow> node" where
  "demo_nodes =
     (\<lambda>i. new_node ScalarVolumeNode [])
       (0 := (new_node ScalarVolumeNode ''CT'')
               \<lparr>node_image := \<lparr>spacing = (1, 1, 2), voxels = [20, 199, 259]\<rparr>\<rparr>,
        1 := new_node ScalarVolumeNode ''Processed'',
        2 := (new_node LabelMapVolumeNode ''Labels'')
               \<lparr>node_image := \<lparr>spacing = (1, 1, 2), voxels = [0, 1, 2]\<rparr>\<rparr>,
        3 := (new_node SegmentationNode ''VesselsSegmentation'')
               \<lparr>segment_ids := [''Vessels'', ''Bone'']\<rparr>,
        4 := new_node ColorTableNode ''HotToColdRainbow'')"

definition demo_world :: world where
  "demo_world = \<lparr>nodes = demo_nodes, scene = [0, 1, 2, 3, 4], next_id = 5, trace = []\<rparr>"

definition demo_widget :: widget where
  "demo_widget =
     (init_widget demo_world)
       \<lparr>segmentationNode3D := Some 3, segmentId3D := Some ''Vessels'',
        inputSelector := Some 0, outputSelector := Some 1,
        inputSelectorSegmentation := Some 3\<rparr>"

text \<open>
  Two runs of \<^verbatim>\<open>onApplySettings\<close> in a row. \<open>first_run\<close> is the state after a run with
  the low noise reduction chosen and the intermediate volume requested; it adds the node
  \<^verbatim>\<open>intermediate_median\<close> (node 5) to the scene. For \<open>second_run\<close> the user has
  selected that node as the output volume and runs the handler again.
\<close>

definition first_run :: widget where
  "first_run =
     state_of (onApplySettings demo_host
       (onNoiseReductionLow True (demo_widget\<lparr>saveIntermediateVolume := True\<rparr>)))"

definition second_run :: widget where
  "second_run = state_of (onApplySettings demo_host (first_run\<lparr>outputSelector := Some 5\<rparr>))"

section \<open>Absent endpoint volumes\<close>

text \<open>
  Claim C9. Each of the three filter methods of the logic class, called with an absent input
  volume or an absent output volume, raises the error "Input or output volume is invalid"
  (a \<^verbatim>\<open>ValueError\<close>) at once: the world is the one it was called in, so no filter has run
  and no volume has been written.
\<close>

theorem absent_volume_raises:
  assumes "inputVolume = None \<or> outputVolume = None"
  shows "applyMedianFilter h inputVolume outputVolume radius showResults w
           = Raised (ValueError ''Input or output volume is invalid'') w
       \<and> applySigmoidFilter h inputVolume outputVolume alpha beta outMin outMax showResults w
           = Raised (ValueError ''Input or output volume is invalid'') w
       \<and> MaurerDistance h inputVolume outputVolume showResults w
           = Raised (ValueError ''Input or output volume is invalid'') w"
  using assms
  by (auto simp: applyMedianFilter_def applySigmoidFilter_def MaurerDistance_def
           split: option.splits)

theorem absent_volume_raises_witness:
  "(None = (None :: node_id option) \<or> Some (1::nat) = None)
   \<and> applyMedianFilter demo_host None (Some 1) 1 True demo_world
         = Raised (ValueError ''Input or output volume is invalid'') demo_world
   \<and> applySigmoidFilter demo_host None (Some 1) 60 200 0 1 True demo_world
         = Raised (ValueError ''Input or output volume is invalid'') demo_world
   \<and> MaurerDistance demo_host None (Some 1) True demo_world
         = Raised (ValueError ''Input or output volume is invalid'') demo_world"
  using absent_volume_raises [of None "Some 1" demo_host 1 True demo_world 60 200 0 1]
  by simp

section \<open>The threshold preview before a segmentation exists\<close>

text \<open>
  Claim C10. A change of the threshold slider that arrives while the widget has no
  segmentation node, or no segment id, or while no output volume is selected, returns
  normally, and the state it leaves differs from the one it found only in the two fields
  that remember the last threshold pair.
\<close>

theorem preview_silent_return:
  assumes "segmentationNode3D s = None \<or> \<not> truthy (segmentId3D s) \<or> outputSelector s = None"
  shows "onThresholdValuesChanged h minimum maximum s
           = Done (s\<lparr>lastThresholdMin := Some minimum, lastThresholdMax := Some maximum\<rparr>)"
  using assms by (auto simp: onThresholdValuesChanged_def Let_def split: option.splits)

theorem preview_silent_return_witness:
  "(segmentationNode3D (init_widget demo_world) = None
      \<or> \<not> truthy (segmentId3D (init_widget demo_world))
      \<or> outputSelector (init_widget demo_world) = None)
   \<and> onThresholdValuesChanged demo_host 5 3 (init_widget demo_world)
        = Done ((init_widget demo_world)\<lparr>lastThresholdMin := Some 5, lastThresholdMax := Some 3\<rparr>)"
  using preview_silent_return [of "init_widget demo_world" demo_host 5 3]
  by (simp add: init_widget_def)

section \<open>Helper facts\<close>

lemma map_of_filter_effect:
  "map_of (map (\<lambda>kv. (snd (fst kv), snd kv)) (filter (\<lambda>kv. fst (fst kv) = e) ps)) k
     = map_of ps (e, k)"
  by (induction ps) auto

lemma map_of_effect_parameters:
  "map_of (effect_parameters e s) k = map_of (ed_parameters s) (e, k)"
  by (simp add: effect_parameters_def map_of_filter_effect)

lemma LabelMapBinary_voxels: "set (voxels (LabelMapBinary img)) \<subseteq> {0, 1}"
  by (auto simp: LabelMapBinary_def)

lemma removeAll_fresh: "x \<notin> set xs \<Longrightarrow> removeAll x (xs @ [x]) = xs"
  by (induction xs) auto

lemma first_run_eval:
  "first_run = demo_widget\<lparr>medianRadius := Some 1, saveIntermediateVolume := True,
      world := \<lparr>nodes = demo_nodes
          (5 := (new_node ScalarVolumeNode ''intermediate_median'')
                  \<lparr>node_image := \<lparr>spacing = (1, 1, 2), voxels = [21, 200, 260]\<rparr>\<rparr>,
           1 := (new_node ScalarVolumeNode ''Processed'')
                  \<lparr>node_image := \<lparr>spacing = (1, 1, 2), voxels = [- 179 / 60, 0, 1]\<rparr>\<rparr>),
        scene = [0, 1, 2, 3, 4, 5], next_id = 6,
        trace = [MedianExecute 1 \<lparr>spacing = (1, 1, 2), voxels = [20, 199, 259]\<rparr>,
          SigmoidExecute \<lparr>sf_alpha = 60, sf_beta = 200, sf_outputMaximum = 1, sf_outputMinimum = 0\<rparr>
            \<lparr>spacing = (1, 1, 2), voxels = [21, 200, 260]\<rparr>,
          SetSliceViewerLayers (Some 1) None, SetSliceViewerLayers (Some 1) None]\<rparr>\<rparr>"
  by (simp add: first_run_def onApplySettings_def onApplySettings_sigmoid_def
        applyMedianFilter_def applySigmoidFilter_def Let_def emit_def PushVolumeToSlicer_def
        PullVolumeFromSlicer_def AddNewNodeByClass_def RemoveNode_def GetFirstNodeByName_def
        onNoiseReductionLow_def demo_widget_def init_widget_def demo_world_def demo_nodes_def
        demo_host_def new_node_def)

section \<open>The order of the preprocessing stages\<close>

text \<open>
  Claim C7. A run of \<^verbatim>\<open>onApplySettings\<close> with an input and an output volume selected
  completes. With no median radius set, the only filter it executes is the sigmoid filter,
  on the image of the input volume. With a radius set, it executes the median filter on the
  image of the input volume and then the sigmoid filter on the median filter's result. In
  both cases the sigmoid filter is the last filter executed, its output range is [0, 1], and
  its result is the image of the output volume afterwards. This holds however the input
  node, the output node and a node already named \<^verbatim>\<open>intermediate_median\<close> coincide.
\<close>

theorem preprocessing_order:
  assumes "inputSelector s = Some inp" and "outputSelector s = Some out"
    and "inp < next_id (world s)"
  shows
    "let img = node_image (nodes (world s) inp);
         sf = \<lparr>sf_alpha = SliderWidgetAlpha s, sf_beta = SliderWidgetBeta s,
               sf_outputMaximum = 1, sf_outputMinimum = 0\<rparr>;
         w' = world (state_of (onApplySettings h s))
     in is_Done (onApplySettings h s)
      \<and> (case medianRadius s of
           None \<Rightarrow>
             trace w' = trace (world s)
                  @ [SigmoidExecute sf img,
                     SetSliceViewerLayers (Some out) None, SetSliceViewerLayers (Some out) None]
             \<and> node_image (nodes w' out) = sigmoidExecute h sf img
         | Some radius \<Rightarrow>
             trace w' = trace (world s)
                  @ [MedianExecute radius img, SigmoidExecute sf (medianExecute h radius img),
                     SetSliceViewerLayers (Some out) None, SetSliceViewerLayers (Some out) None]
             \<and> node_image (nodes w' out) = sigmoidExecute h sf (medianExecute h radius img))"
  using assms
  by (auto simp: onApplySettings_def onApplySettings_sigmoid_def applyMedianFilter_def
        applySigmoidFilter_def Let_def emit_def PushVolumeToSlicer_def PullVolumeFromSlicer_def
        AddNewNodeByClass_def RemoveNode_def split: option.splits prod.splits)

theorem preprocessing_order_witness:
  "inputSelector (onNoiseReductionLow True demo_widget) = Some 0
   \<and> outputSelector (onNoiseReductionLow True demo_widget) = Some 1
   \<and> 0 < next_id (world (onNoiseReductionLow True demo_widget))
   \<and> is_Done (onApplySettings demo_host (onNoiseReductionLow True demo_widget))
   \<and> trace (world (state_of (onApplySettings demo_host (onNoiseReductionLow True demo_widget))))
       = [MedianExecute 1 \<lparr>spacing = (1, 1, 2), voxels = [20, 199, 259]\<rparr>,
          SigmoidExecute \<lparr>sf_alpha = 60, sf_beta = 200, sf_outputMaximum = 1, sf_outputMinimum = 0\<rparr>
            \<lparr>spacing = (1, 1, 2), voxels = [21, 200, 260]\<rparr>,
          SetSliceViewerLayers (Some 1) None, SetSliceViewerLayers (Some 1) None]
   \<and> node_image (nodes (world (state_of
          (onApplySettings demo_host (onNoiseReductionLow True demo_widget)))) 1)
       = \<lparr>spacing = (1, 1, 2), voxels = [- 179 / 60, 0, 1]\<rparr>"
  using preprocessing_order [of "onNoiseReductionLow True demo_widget" 0 1 demo_host]
  by (simp add: onNoiseReductionLow_def demo_widget_def init_widget_def demo_world_def
        demo_nodes_def demo_host_def new_node_def Let_def)

section \<open>Sessions and the recorded threshold pair\<close>

text \<open>
  Only the preview handler and \<^verbatim>\<open>onAddSegmentation\<close> write the two fields that remember
  the threshold pair; every other event leaves them as they are.
\<close>

lemma handle_keeps_thresholds:
  assumes "\<not> is_preview e" and "e \<noteq> AddSegmentation"
  shows "lastThresholdMin (handle h s e) = lastThresholdMin s
       \<and> lastThresholdMax (handle h s e) = lastThresholdMax s"
  using assms
  by (cases e)
     (auto simp: onNoiseReductionLow_def onNoiseReductionHigh_def onApplySettings_def
        onApplySettings_sigmoid_def onApplyThresholdShow3D_def onApplyThresholdShow3D_try_def
        onComputeMaurerDistance_def select_in_editor_def setActiveEffectByName_def
        setParameter_def onApply_def show3D_def in_world_def Let_def
        split: option.splits outcome.splits prod.splits if_splits)

lemma run_keeps_thresholds:
  assumes "never_previewed evs" and "AddSegmentation \<notin> set evs"
  shows "lastThresholdMin (run h evs s) = lastThresholdMin s
       \<and> lastThresholdMax (run h evs s) = lastThresholdMax s"
  using assms
proof (induction evs arbitrary: s)
  case Nil
  then show ?case by (simp add: run_def)
next
  case (Cons e evs)
  then have e: "\<not> is_preview e" "e \<noteq> AddSegmentation"
    and rest: "never_previewed evs" "AddSegmentation \<notin> set evs"
    by (auto simp: never_previewed_def split: if_splits)
  have "run h (e # evs) s = run h evs (handle h s e)"
    by (simp add: run_def)
  with Cons.IH [OF rest, of "handle h s e"] handle_keeps_thresholds [OF e, of h s]
  show ?case by simp
qed

lemma finalize_shows_move_slider:
  assumes "lastThresholdMin s = None \<or> lastThresholdMax s = None"
  shows "onApplyThresholdShow3D h s
           = Done (s\<lparr>world := (world s)\<lparr>trace := trace (world s)
                      @ [ErrorDisplay ''Move the threshold slider at least once.'']\<rparr>\<rparr>)"
  using assms
  by (auto simp: onApplyThresholdShow3D_def in_world_def emit_def split: option.splits)

lemma onAddSegmentation_result:
  assumes "outputSelector s = Some vol" and "vol < next_id (world s)"
    and "voxels (node_image (nodes (world s) vol)) \<noteq> []"
    and "\<forall>ids. addEmptySegment h ids ''Vessels'' \<noteq> []"
  shows
    "is_Done (onAddSegmentation h s)
     \<and> lastThresholdMin (state_of (onAddSegmentation h s))
          = Some (fst (scalarRange h (node_image (nodes (world s) vol))))
     \<and> lastThresholdMax (state_of (onAddSegmentation h s))
          = Some (snd (scalarRange h (node_image (nodes (world s) vol))))
     \<and> segmentationNode3D (state_of (onAddSegmentation h s)) \<noteq> None
     \<and> truthy (segmentId3D (state_of (onAddSegmentation h s)))
     \<and> outputSelector (state_of (onAddSegmentation h s)) = Some vol
     \<and> medianRadius (state_of (onAddSegmentation h s)) = medianRadius s
     \<and> SliderWidgetAlpha (state_of (onAddSegmentation h s)) = SliderWidgetAlpha s
     \<and> SliderWidgetBeta (state_of (onAddSegmentation h s)) = SliderWidgetBeta s"
  using assms
  by (cases "segmentationNode3D s")
     (auto simp: onAddSegmentation_def AddEmptySegment_def AddNewNodeByClass_def
        select_in_editor_def setActiveEffectByName_def in_world_def emit_def Let_def
        new_node_def split: prod.splits)

lemma finalize_trace:
  assumes "lastThresholdMin s = Some thMin" and "lastThresholdMax s = Some thMax"
    and "segmentationNode3D s = Some seg" and "truthy (segmentId3D s)"
    and "outputSelector s = Some vol"
    and "effectAvailable h ''Threshold''" and "effectAvailable h ''Islands''"
  shows "\<exists>ps1 ps2.
           trace (world (state_of (onApplyThresholdShow3D h s)))
             = trace (world s)
               @ [EffectApply ''Threshold'' ps1, EffectApply ''Islands'' ps2,
                  CreateDefaultDisplayNodes seg, CreateClosedSurfaceRepresentation seg,
                  SetVisibility3D seg True,
                  SetPreferredDisplayRepresentationName3D seg ''Closed surface'',
                  SetDisplayVisibility seg 1, ResetCamera,
                  InfoDisplay (success_message h s thMin thMax)]
           \<and> map_of ps1 ''MinimumThreshold'' = Some (format_g h thMin)
           \<and> map_of ps1 ''MaximumThreshold'' = Some (format_g h thMax)
           \<and> map_of ps2 ''Operation'' = Some ''KEEP_LARGEST_ISLAND''
           \<and> map_of ps2 ''MinimumSize'' = Some ''1000''"
  using assms
  by (auto simp: onApplyThresholdShow3D_def
        onApplyThresholdShow3D_try_def select_in_editor_def setActiveEffectByName_def
        setParameter_def onApply_def show3D_def in_world_def emit_def Let_def
        map_of_effect_parameters update_conv' success_message_def
        split: option.splits outcome.splits)

section \<open>Finalizing before the threshold preview has run\<close>

text \<open>
  Claim C6, as the code has it. \<^verbatim>\<open>onApplyThresholdShow3D\<close> raises nothing, in any state:
  its first check returns after showing a message, and every exception of its \<^verbatim>\<open>try\<close>
  block is caught and shown.
  \<^item> While no threshold pair is recorded it shows "Move the threshold slider at least once."
    and returns; with a pair recorded but no segmentation node or no segment id it shows
    "Failed to apply threshold and show 3D model." followed by the text of the
    \<^verbatim>\<open>ValueError\<close> of its second check. In both cases the message is the only change of
    the state: no effect is applied, no surface is created and no view is touched.
  \<^item> In a session in which neither the preview handler nor \<^verbatim>\<open>onAddSegmentation\<close> has
    run, no threshold pair is recorded, so the finalize handler only shows the first message.
  \<^item> \<^verbatim>\<open>onAddSegmentation\<close> records a threshold pair itself, the scalar range of the
    selected output volume, without running the preview. Once it has completed, the finalize
    handler (with both effects available) does its work whether or not the preview has run:
    it applies the Threshold effect with that range, then the Islands effect, creates the
    closed surface, shows it in 3D, resets the camera and reports success.
\<close>

theorem finalize_before_preview:
  "is_Done (onApplyThresholdShow3D h s)
   \<and> (lastThresholdMin s = None \<or> lastThresholdMax s = None \<longrightarrow>
      onApplyThresholdShow3D h s
        = Done (s\<lparr>world := (world s)\<lparr>trace := trace (world s)
                   @ [ErrorDisplay ''Move the threshold slider at least once.'']\<rparr>\<rparr>))
   \<and> (lastThresholdMin s \<noteq> None \<and> lastThresholdMax s \<noteq> None
        \<and> (segmentationNode3D s = None \<or> \<not> truthy (segmentId3D s)) \<longrightarrow>
      onApplyThresholdShow3D h s
        = Done (s\<lparr>world := (world s)\<lparr>trace := trace (world s)
                   @ [ErrorDisplay (''Failed to apply threshold and show 3D model.\<newline>''
                                     @ ''No segmentation. Use 'Add Segmentation' first.'')]\<rparr>\<rparr>))
   \<and> (never_previewed evs \<and> AddSegmentation \<notin> set evs \<longrightarrow>
      onApplyThresholdShow3D h (run h evs (init_widget w))
        = Done ((run h evs (init_widget w))
                  \<lparr>world := (world (run h evs (init_widget w)))
                     \<lparr>trace := trace (world (run h evs (init_widget w)))
                        @ [ErrorDisplay ''Move the threshold slider at least once.'']\<rparr>\<rparr>))
   \<and> (outputSelector s = Some vol \<and> vol < next_id (world s)
        \<and> voxels (node_image (nodes (world s) vol)) \<noteq> []
        \<and> effectAvailable h ''Threshold'' \<and> effectAvailable h ''Islands''
        \<and> (\<forall>ids. addEmptySegment h ids ''Vessels'' \<noteq> []) \<longrightarrow>
      is_Done (onAddSegmentation h s)
      \<and> lastThresholdMin (state_of (onAddSegmentation h s))
           = Some (fst (scalarRange h (node_image (nodes (world s) vol))))
      \<and> lastThresholdMax (state_of (onAddSegmentation h s))
           = Some (snd (scalarRange h (node_image (nodes (world s) vol))))
      \<and> (\<exists>ps1 ps2 seg.
           trace (world (state_of (onApplyThresholdShow3D h (state_of (onAddSegmentation h s)))))
             = trace (world (state_of (onAddSegmentation h s)))
               @ [EffectApply ''Threshold'' ps1, EffectApply ''Islands'' ps2,
                  CreateDefaultDisplayNodes seg, CreateClosedSurfaceRepresentation seg,
                  SetVisibility3D seg True,
                  SetPreferredDisplayRepresentationName3D seg ''Closed surface'',
                  SetDisplayVisibility seg 1, ResetCamera,
                  InfoDisplay (success_message h s
                     (fst (scalarRange h (node_image (nodes (world s) vol))))
                     (snd (scalarRange h (node_image (nodes (world s) vol)))))]
           \<and> map_of ps1 ''MinimumThreshold''
                = Some (format_g h (fst (scalarRange h (node_image (nodes (world s) vol)))))
           \<and> map_of ps1 ''MaximumThreshold''
                = Some (format_g h (snd (scalarRange h (node_image (nodes (world s) vol)))))
           \<and> map_of ps2 ''Operation'' = Some ''KEEP_LARGEST_ISLAND''
           \<and> map_of ps2 ''MinimumSize'' = Some ''1000''))"
proof (intro conjI impI)
  show "is_Done (onApplyThresholdShow3D h s)"
    by (simp add: onApplyThresholdShow3D_def split: option.splits outcome.splits)
next
  assume "lastThresholdMin s = None \<or> lastThresholdMax s = None"
  then show "onApplyThresholdShow3D h s
        = Done (s\<lparr>world := (world s)\<lparr>trace := trace (world s)
                   @ [ErrorDisplay ''Move the threshold slider at least once.'']\<rparr>\<rparr>)"
    by (rule finalize_shows_move_slider)
next
  assume "lastThresholdMin s \<noteq> None \<and> lastThresholdMax s \<noteq> None
        \<and> (segmentationNode3D s = None \<or> \<not> truthy (segmentId3D s))"
  then show "onApplyThresholdShow3D h s
        = Done (s\<lparr>world := (world s)\<lparr>trace := trace (world s)
                   @ [ErrorDisplay (''Failed to apply threshold and show 3D model.\<newline>''
                                     @ ''No segmentation. Use 'Add Segmentation' first.'')]\<rparr>\<rparr>)"
    by (auto simp: onApplyThresholdShow3D_def onApplyThresholdShow3D_try_def in_world_def
          emit_def split: option.splits)
next
  assume "never_previewed evs \<and> AddSegmentation \<notin> set evs"
  then have "lastThresholdMin (run h evs (init_widget w)) = None"
    using run_keeps_thresholds [of evs h "init_widget w"] by (simp add: init_widget_def)
  then show "onApplyThresholdShow3D h (run h evs (init_widget w))
        = Done ((run h evs (init_widget w))
                  \<lparr>world := (world (run h evs (init_widget w)))
                     \<lparr>trace := trace (world (run h evs (init_widget w)))
                        @ [ErrorDisplay ''Move the threshold slider at least once.'']\<rparr>\<rparr>)"
    by (simp add: finalize_shows_move_slider)
next
  assume a: "outputSelector s = Some vol \<and> vol < next_id (world s)
        \<and> voxels (node_image (nodes (world s) vol)) \<noteq> []
        \<and> effectAvailable h ''Threshold'' \<and> effectAvailable h ''Islands''
        \<and> (\<forall>ids. addEmptySegment h ids ''Vessels'' \<noteq> [])"
  let ?t = "state_of (onAddSegmentation h s)"
  let ?low = "fst (scalarRange h (node_image (nodes (world s) vol)))"
  let ?high = "snd (scalarRange h (node_image (nodes (world s) vol)))"
  from a have r: "is_Done (onAddSegmentation h s)"
    "lastThresholdMin ?t = Some ?low" "lastThresholdMax ?t = Some ?high"
    "segmentationNode3D ?t \<noteq> None" "truthy (segmentId3D ?t)" "outputSelector ?t = Some vol"
    "medianRadius ?t = medianRadius s" "SliderWidgetAlpha ?t = SliderWidgetAlpha s"
    "SliderWidgetBeta ?t = SliderWidgetBeta s"
    using onAddSegmentation_result [of s vol h] by simp_all
  from r(4) obtain seg where seg: "segmentationNode3D ?t = Some seg" by auto
  have msg: "success_message h ?t ?low ?high = success_message h s ?low ?high"
    by (simp add: success_message_def r(7-9))
  from a have eff: "effectAvailable h ''Threshold''" "effectAvailable h ''Islands''" by simp_all
  show "is_Done (onAddSegmentation h s)" by (rule r(1))
  show "lastThresholdMin ?t = Some ?low" by (rule r(2))
  show "lastThresholdMax ?t = Some ?high" by (rule r(3))
  from finalize_trace [OF r(2) r(3) seg r(5) r(6) eff] msg
  show "\<exists>ps1 ps2 seg.
           trace (world (state_of (onApplyThresholdShow3D h ?t)))
             = trace (world ?t)
               @ [EffectApply ''Threshold'' ps1, EffectApply ''Islands'' ps2,
                  CreateDefaultDisplayNodes seg, CreateClosedSurfaceRepresentation seg,
                  SetVisibility3D seg True,
                  SetPreferredDisplayRepresentationName3D seg ''Closed surface'',
                  SetDisplayVisibility seg 1, ResetCamera,
                  InfoDisplay (success_message h s ?low ?high)]
           \<and> map_of ps1 ''MinimumThreshold'' = Some (format_g h ?low)
           \<and> map_of ps1 ''MaximumThreshold'' = Some (format_g h ?high)
           \<and> map_of ps2 ''Operation'' = Some ''KEEP_LARGEST_ISLAND''
           \<and> map_of ps2 ''MinimumSize'' = Some ''1000''"
    by auto
qed

theorem finalize_before_preview_witness:
  "lastThresholdMin ((init_widget demo_world)\<lparr>outputSelector := Some 0\<rparr>) = None
   \<and> onApplyThresholdShow3D demo_host ((init_widget demo_world)\<lparr>outputSelector := Some 0\<rparr>)
        = Done ((init_widget demo_world)\<lparr>outputSelector := Some 0,
                  world := demo_world\<lparr>trace :=
                    [ErrorDisplay ''Move the threshold slider at least once.'']\<rparr>\<rparr>)
   \<and> lastThresholdMin ((init_widget demo_world)\<lparr>lastThresholdMin := Some 5,
                                                lastThresholdMax := Some 3\<rparr>) \<noteq> None
   \<and> lastThresholdMax ((init_widget demo_world)\<lparr>lastThresholdMin := Some 5,
                                                lastThresholdMax := Some 3\<rparr>) \<noteq> None
   \<and> segmentationNode3D ((init_widget demo_world)\<lparr>lastThresholdMin := Some 5,
                                                  lastThresholdMax := Some 3\<rparr>) = None
   \<and> onApplyThresholdShow3D demo_host
         ((init_widget demo_world)\<lparr>lastThresholdMin := Some 5, lastThresholdMax := Some 3\<rparr>)
        = Done ((init_widget demo_world)\<lparr>lastThresholdMin := Some 5, lastThresholdMax := Some 3,
                  world := demo_world\<lparr>trace :=
                   [ErrorDisplay (''Failed to apply threshold and show 3D model.\<newline>''
                                   @ ''No segmentation. Use 'Add Segmentation' first.'')]\<rparr>\<rparr>)
   \<and> never_previewed [SelectOutput (Some 0), NoiseReductionLow True, ApplySettings]
   \<and> AddSegmentation \<notin> set [SelectOutput (Some 0), NoiseReductionLow True, ApplySettings]
   \<and> is_Done (onApplyThresholdShow3D demo_host
         (run demo_host [SelectOutput (Some 0), NoiseReductionLow True, ApplySettings]
            (init_widget demo_world)))
   \<and> outputSelector ((init_widget demo_world)\<lparr>outputSelector := Some 0\<rparr>) = Some 0
   \<and> 0 < next_id (world ((init_widget demo_world)\<lparr>outputSelector := Some 0\<rparr>))
   \<and> voxels (node_image (nodes (world ((init_widget demo_world)\<lparr>outputSelector := Some 0\<rparr>)) 0))
        \<noteq> []
   \<and> effectAvailable demo_host ''Threshold'' \<and> effectAvailable demo_host ''Islands''
   \<and> (\<forall>ids. addEmptySegment demo_host ids ''Vessels'' \<noteq> [])
   \<and> is_Done (onAddSegmentation demo_host ((init_widget demo_world)\<lparr>outputSelector := Some 0\<rparr>))
   \<and> lastThresholdMin (state_of
         (onAddSegmentation demo_host ((init_widget demo_world)\<lparr>outputSelector := Some 0\<rparr>)))
        = Some 20
   \<and> lastThresholdMax (state_of
         (onAddSegmentation demo_host ((init_widget demo_world)\<lparr>outputSelector := Some 0\<rparr>)))
        = Some 259"
  using finalize_before_preview
          [where s = "(init_widget demo_world)\<lparr>outputSelector := Some 0\<rparr>"
             and h = demo_host and w = demo_world and vol = 0
             and evs = "[SelectOutput (Some 0), NoiseReductionLow True, ApplySettings]"]
    finalize_before_preview
      [where s = "(init_widget demo_world)\<lparr>lastThresholdMin := Some 5, lastThresholdMax := Some 3\<rparr>"
         and h = demo_host and evs = "[]" and w = demo_world and vol = 0]
  by (simp add: init_widget_def demo_world_def demo_nodes_def demo_host_def new_node_def
        never_previewed_def)

theorem finalize_without_preview_counterexample:
  "\<not> is_Raised (onApplyThresholdShow3D demo_host (init_widget demo_world))
   \<and> never_previewed [SelectOutput (Some 0), AddSegmentation]
   \<and> \<not> is_Raised (onApplyThresholdShow3D demo_host
          (run demo_host [SelectOutput (Some 0), AddSegmentation] (init_widget demo_world)))
   \<and> butlast (trace (world (state_of (onApplyThresholdShow3D demo_host
          (run demo_host [SelectOutput (Some 0), AddSegmentation] (init_widget demo_world))))))
       = [CreateDefaultDisplayNodes 5, SetVisibility2D 5 True, SetVisibility3D 5 False,
          SetSliceViewerLayers (Some 0) (Some 5),
          RangeWidgetSetRange 20 259, RangeWidgetSetMinimumValue 20,
          RangeWidgetSetMaximumValue 259,
          EffectApply ''Threshold''
            [(''MinimumThreshold'', ''20''), (''MaximumThreshold'', ''259'')],
          EffectApply ''Islands''
            [(''Operation'', ''KEEP_LARGEST_ISLAND''), (''MinimumSize'', ''1000'')],
          CreateDefaultDisplayNodes 5, CreateClosedSurfaceRepresentation 5,
          SetVisibility3D 5 True,
          SetPreferredDisplayRepresentationName3D 5 ''Closed surface'',
          SetDisplayVisibility 5 1, ResetCamera]"
  by (simp add: run_def never_previewed_def onAddSegmentation_def AddEmptySegment_def
        AddNewNodeByClass_def onApplyThresholdShow3D_def onApplyThresholdShow3D_try_def
        select_in_editor_def setActiveEffectByName_def setParameter_def onApply_def
        show3D_def in_world_def emit_def Let_def effect_parameters_def
        init_widget_def demo_world_def demo_nodes_def demo_host_def new_node_def)

section \<open>Threshold pairs with the minimum above the maximum\<close>

text \<open>
  Claim C4, as the code has it. Neither handler compares the two bounds. With a
  segmentation, a selected output volume and the Threshold effect available, the preview
  handler called with any pair records it, hands the two formatted values to the effect as
  \<^verbatim>\<open>MinimumThreshold\<close> and \<^verbatim>\<open>MaximumThreshold\<close> and returns normally. The finalize
  handler never raises, and when the Islands effect is available too the first thing it does
  is to apply the Threshold effect with the recorded pair as these two parameters.
\<close>

theorem thresholds_not_compared:
  "(segmentationNode3D s = Some seg \<and> truthy (segmentId3D s) \<and> outputSelector s = Some vol
      \<and> effectAvailable h ''Threshold'' \<longrightarrow>
      onThresholdValuesChanged h minimum maximum s
        = Done (s\<lparr>lastThresholdMin := Some minimum, lastThresholdMax := Some maximum,
                  ed_segmentationNode := Some seg, ed_sourceVolumeNode := Some vol,
                  ed_currentSegmentID := segmentId3D s, ed_activeEffect := Some ''Threshold'',
                  ed_parameters :=
                    AList.update (''Threshold'', ''MaximumThreshold'') (format_g h maximum)
                      (AList.update (''Threshold'', ''MinimumThreshold'') (format_g h minimum)
                         (ed_parameters s)),
                  world := (world s)\<lparr>trace := trace (world s) @ [ProcessEvents]\<rparr>\<rparr>))
   \<and> is_Done (onApplyThresholdShow3D h s)
   \<and> (lastThresholdMin s = Some thMin \<and> lastThresholdMax s = Some thMax
        \<and> segmentationNode3D s = Some seg \<and> truthy (segmentId3D s) \<and> outputSelector s = Some vol
        \<and> effectAvailable h ''Threshold'' \<and> effectAvailable h ''Islands'' \<longrightarrow>
        (\<exists>ps rest.
           trace (world (state_of (onApplyThresholdShow3D h s)))
             = trace (world s) @ EffectApply ''Threshold'' ps # rest
           \<and> map_of ps ''MinimumThreshold'' = Some (format_g h thMin)
           \<and> map_of ps ''MaximumThreshold'' = Some (format_g h thMax)))"
  by (auto simp: onThresholdValuesChanged_def onApplyThresholdShow3D_def
        onApplyThresholdShow3D_try_def select_in_editor_def setActiveEffectByName_def
        setParameter_def onApply_def show3D_def in_world_def emit_def Let_def
        map_of_effect_parameters update_conv'
        split: option.splits outcome.splits)

theorem thresholds_not_compared_witness:
  "segmentationNode3D demo_widget = Some 3 \<and> truthy (segmentId3D demo_widget)
   \<and> outputSelector demo_widget = Some 1
   \<and> effectAvailable demo_host ''Threshold'' \<and> effectAvailable demo_host ''Islands''
   \<and> (5::real) > 3
   \<and> ed_parameters (state_of (onThresholdValuesChanged demo_host 5 3 demo_widget))
       = [((''Threshold'', ''MinimumThreshold''), ''5''),
          ((''Threshold'', ''MaximumThreshold''), ''3'')]
   \<and> is_Done (onThresholdValuesChanged demo_host 5 3 demo_widget)
   \<and> lastThresholdMin (demo_widget\<lparr>lastThresholdMin := Some 5, lastThresholdMax := Some 3\<rparr>)
        = Some 5
   \<and> lastThresholdMax (demo_widget\<lparr>lastThresholdMin := Some 5, lastThresholdMax := Some 3\<rparr>)
        = Some 3
   \<and> is_Done (onApplyThresholdShow3D demo_host
          (demo_widget\<lparr>lastThresholdMin := Some 5, lastThresholdMax := Some 3\<rparr>))
   \<and> (\<exists>ps rest.
         trace (world (state_of (onApplyThresholdShow3D demo_host
            (demo_widget\<lparr>lastThresholdMin := Some 5, lastThresholdMax := Some 3\<rparr>))))
           = EffectApply ''Threshold'' ps # rest
         \<and> map_of ps ''MinimumThreshold'' = Some ''5''
         \<and> map_of ps ''MaximumThreshold'' = Some ''3'')"
  using thresholds_not_compared [where s = demo_widget and seg = 3 and vol = 1
          and h = demo_host and minimum = 5 and maximum = 3]
    thresholds_not_compared
      [where s = "demo_widget\<lparr>lastThresholdMin := Some 5, lastThresholdMax := Some 3\<rparr>"
         and seg = 3 and vol = 1 and h = demo_host and thMin = 5 and thMax = 3]
  by (simp add: demo_widget_def init_widget_def demo_host_def demo_world_def)

theorem inverted_thresholds_not_rejected:
  "(5::real) > 3
   \<and> \<not> is_Raised (onThresholdValuesChanged demo_host 5 3 demo_widget)
   \<and> ed_parameters (state_of (onThresholdValuesChanged demo_host 5 3 demo_widget))
       = [((''Threshold'', ''MinimumThreshold''), ''5''),
          ((''Threshold'', ''MaximumThreshold''), ''3'')]
   \<and> \<not> is_Raised (onApplyThresholdShow3D demo_host
           (demo_widget\<lparr>lastThresholdMin := Some 5, lastThresholdMax := Some 3\<rparr>))
   \<and> hd (trace (world (state_of (onApplyThresholdShow3D demo_host
           (demo_widget\<lparr>lastThresholdMin := Some 5, lastThresholdMax := Some 3\<rparr>)))))
       = EffectApply ''Threshold'' [(''MinimumThreshold'', ''5''), (''MaximumThreshold'', ''3'')]"
  by (simp add: onThresholdValuesChanged_def onApplyThresholdShow3D_def
        onApplyThresholdShow3D_try_def select_in_editor_def setActiveEffectByName_def
        setParameter_def onApply_def show3D_def in_world_def emit_def Let_def
        effect_parameters_def demo_widget_def init_widget_def demo_world_def demo_host_def)

section \<open>Labelmaps that are not binary\<close>

text \<open>
  Claim C2, as the code has it. \<^verbatim>\<open>MaurerDistance\<close> does not look at the voxel values of
  its input: for a labelmap node holding any image it raises nothing, executes the distance
  filter on that image and writes the result to the output volume. The handler that calls
  it, \<^verbatim>\<open>onComputeMaurerDistance\<close>, replaces the exported labelmap by its binarisation
  (1 where the voxel is above 0, else 0) before the call, so on that path the image the
  filter is executed on holds no value other than 0 and 1.
\<close>

theorem maurer_input_not_checked:
  "(IsA (nodes w inp) LabelMapVolumeNode \<longrightarrow>
      MaurerDistance h (Some inp) (Some out) showResults w
        = Done (w\<lparr>nodes := (nodes w)(out := (nodes w out)
                    \<lparr>node_image := maurerExecute h
                        \<lparr>mf_useImageSpacing = True, mf_squaredDistance = False,
                         mf_backgroundValue = 0, mf_insideIsPositive = False\<rparr>
                        (node_image (nodes w inp))\<rparr>),
                  trace := trace w
                    @ [MaurerExecute
                        \<lparr>mf_useImageSpacing = True, mf_squaredDistance = False,
                         mf_backgroundValue = 0, mf_insideIsPositive = False\<rparr>
                        (node_image (nodes w inp))]
                    @ (if showResults then [SetSliceViewerLayers (Some out) None] else [])\<rparr>))
   \<and> (inputSelectorSegmentation s = Some seg \<and> IsA (nodes (world s) seg) SegmentationNode
        \<and> outputSelector s = Some ref \<and> segment_ids (nodes (world s) seg) \<noteq> []
        \<and> seg < next_id (world s) \<and> ref < next_id (world s) \<longrightarrow>
        (\<exists>rest.
           trace (world (state_of (onComputeMaurerDistance h s)))
             = trace (world s)
               @ [ExportSegmentsToLabelmapNode seg (segment_ids (nodes (world s) seg))
                    (next_id (world s)) ref,
                  MaurerExecute
                    \<lparr>mf_useImageSpacing = True, mf_squaredDistance = False,
                     mf_backgroundValue = 0, mf_insideIsPositive = False\<rparr>
                    (LabelMapBinary (exportSegments h (nodes (world s) seg)
                                       (node_image (nodes (world s) ref))))]
               @ rest)
        \<and> set (voxels (LabelMapBinary (exportSegments h (nodes (world s) seg)
                                         (node_image (nodes (world s) ref))))) \<subseteq> {0, 1})"
  by (auto simp: MaurerDistance_def onComputeMaurerDistance_def ExportSegmentsToLabelmap_def
        IsA_def AddNewNodeByClass_def PushVolumeToSlicer_def PullVolumeFromSlicer_def emit_def
        new_node_def set_color_node_def Let_def LabelMapBinary_def
        split: option.splits prod.splits outcome.splits)

theorem maurer_input_not_checked_witness:
  "IsA (nodes demo_world 2) LabelMapVolumeNode
   \<and> MaurerDistance demo_host (Some 2) (Some 1) False demo_world
       = Done (demo_world\<lparr>nodes := (nodes demo_world)(1 := (nodes demo_world 1)
                   \<lparr>node_image := \<lparr>spacing = (1, 1, 2), voxels = [1, - 1, - 1]\<rparr>\<rparr>),
                 trace := [MaurerExecute
                        \<lparr>mf_useImageSpacing = True, mf_squaredDistance = False,
                         mf_backgroundValue = 0, mf_insideIsPositive = False\<rparr>
                        \<lparr>spacing = (1, 1, 2), voxels = [0, 1, 2]\<rparr>]\<rparr>)
   \<and> inputSelectorSegmentation (demo_widget\<lparr>outputSelector := Some 0\<rparr>) = Some 3
   \<and> IsA (nodes (world (demo_widget\<lparr>outputSelector := Some 0\<rparr>)) 3) SegmentationNode
   \<and> outputSelector (demo_widget\<lparr>outputSelector := Some 0\<rparr>) = Some 0
   \<and> segment_ids (nodes (world (demo_widget\<lparr>outputSelector := Some 0\<rparr>)) 3) \<noteq> []
   \<and> 3 < next_id (world (demo_widget\<lparr>outputSelector := Some 0\<rparr>))
   \<and> (\<exists>rest.
         trace (world (state_of
            (onComputeMaurerDistance demo_host (demo_widget\<lparr>outputSelector := Some 0\<rparr>))))
           = [ExportSegmentsToLabelmapNode 3 [''Vessels'', ''Bone''] 5 0,
              MaurerExecute
                \<lparr>mf_useImageSpacing = True, mf_squaredDistance = False,
                 mf_backgroundValue = 0, mf_insideIsPositive = False\<rparr>
                \<lparr>spacing = (1, 1, 2), voxels = [0, 1, 1]\<rparr>]
             @ rest)"
  using maurer_input_not_checked [where w = demo_world and inp = 2 and out = 1
          and h = demo_host and showResults = False
          and s = "demo_widget\<lparr>outputSelector := Some 0\<rparr>" and seg = 3 and ref = 0]
  by (simp add: IsA_def demo_widget_def init_widget_def demo_world_def demo_nodes_def
        demo_host_def new_node_def LabelMapBinary_def)

theorem nonbinary_labelmap_not_rejected:
  "2 \<in> set (voxels (node_image (nodes demo_world 2)))
   \<and> \<not> is_Raised (MaurerDistance demo_host (Some 2) (Some 1) True demo_world)
   \<and> voxels (node_image (nodes (state_of
         (MaurerDistance demo_host (Some 2) (Some 1) True demo_world)) 1)) = [1, - 1, - 1]"
  by (simp add: MaurerDistance_def IsA_def Let_def emit_def PushVolumeToSlicer_def
        PullVolumeFromSlicer_def demo_world_def demo_nodes_def demo_host_def new_node_def)

section \<open>The intermediate median volume\<close>

text \<open>
  Claim C8 at a run whose output volume is the node \<^verbatim>\<open>intermediate_median\<close> itself.
  After \<open>first_run\<close> that node (node 5) holds the median-filtered volume. In the second
  run, with the intermediate volume still requested and a radius set, the handler finds the
  node by its name, writes the median result into it and then writes the sigmoid result
  over it, since it is the output volume too. Afterwards the scene has the same six nodes
  and none of them holds the median-filtered volume [21, 200, 260].
\<close>

theorem saved_median_overwritten:
  "GetFirstNodeByName (world first_run) ''intermediate_median'' = Some 5
   \<and> voxels (node_image (nodes (world first_run) 5)) = [21, 200, 260]
   \<and> saveIntermediateVolume (first_run\<lparr>outputSelector := Some 5\<rparr>)
   \<and> medianRadius (first_run\<lparr>outputSelector := Some 5\<rparr>) = Some 1
   \<and> is_Done (onApplySettings demo_host (first_run\<lparr>outputSelector := Some 5\<rparr>))
   \<and> scene (world second_run) = [0, 1, 2, 3, 4, 5]
   \<and> map (\<lambda>i. voxels (node_image (nodes (world second_run) i))) (scene (world second_run))
       = [[20, 199, 259], [- 179 / 60, 0, 1], [0, 1, 2], [], [], [- 179 / 60, 0, 1]]"
  by (simp add: second_run_def first_run_eval onApplySettings_def onApplySettings_sigmoid_def
        applyMedianFilter_def applySigmoidFilter_def Let_def emit_def PushVolumeToSlicer_def
        PullVolumeFromSlicer_def AddNewNodeByClass_def RemoveNode_def GetFirstNodeByName_def
        demo_widget_def init_widget_def demo_world_def demo_nodes_def
        demo_host_def new_node_def)

text \<open>
  Away from that coincidence the handler does keep, respectively remove, the median volume.
  With the intermediate volume requested and the output volume not the node found under the
  name \<^verbatim>\<open>intermediate_median\<close>, the node of that name is in the scene after the run and
  holds the median filter's result. With the intermediate volume not requested, the scene
  after the run is the scene before it, and no node of it other than the output volume has
  changed.
\<close>

lemma intermediate_kept_unless_output:
  assumes "inputSelector s = Some inp" and "outputSelector s = Some out"
    and "medianRadius s = Some radius" and "saveIntermediateVolume s"
    and "inp < next_id (world s)" and "out < next_id (world s)"
    and "GetFirstNodeByName (world s) ''intermediate_median'' \<noteq> Some out"
  shows
    "let e = (case GetFirstNodeByName (world s) ''intermediate_median'' of
                Some existingNode \<Rightarrow> existingNode | None \<Rightarrow> next_id (world s));
         w' = world (state_of (onApplySettings h s))
     in e \<in> set (scene w') \<and> node_name (nodes w' e) = ''intermediate_median''
        \<and> node_image (nodes w' e) = medianExecute h radius (node_image (nodes (world s) inp))"
proof (cases "GetFirstNodeByName (world s) ''intermediate_median''")
  case None
  with assms show ?thesis
    by (auto simp: onApplySettings_def onApplySettings_sigmoid_def applyMedianFilter_def
          applySigmoidFilter_def Let_def emit_def PushVolumeToSlicer_def
          PullVolumeFromSlicer_def AddNewNodeByClass_def new_node_def)
next
  case (Some e)
  then have "e \<in> set (scene (world s))"
    and "node_name (nodes (world s) e) = ''intermediate_median''"
    by (auto simp: GetFirstNodeByName_def find_Some_iff)
  with Some assms show ?thesis
    by (auto simp: onApplySettings_def onApplySettings_sigmoid_def applyMedianFilter_def
          applySigmoidFilter_def Let_def emit_def PushVolumeToSlicer_def
          PullVolumeFromSlicer_def)
qed

lemma temporary_median_removed:
  assumes "inputSelector s = Some inp" and "outputSelector s = Some out"
    and "medianRadius s = Some radius" and "\<not> saveIntermediateVolume s"
    and "\<forall>i \<in> set (scene (world s)). i < next_id (world s)"
  shows
    "let w' = world (state_of (onApplySettings h s))
     in scene w' = scene (world s)
        \<and> (\<forall>i \<in> set (scene (world s)). i \<noteq> out \<longrightarrow> nodes w' i = nodes (world s) i)"
  using assms
  by (auto simp: onApplySettings_def onApplySettings_sigmoid_def applyMedianFilter_def
        applySigmoidFilter_def Let_def emit_def PushVolumeToSlicer_def PullVolumeFromSlicer_def
        AddNewNodeByClass_def RemoveNode_def removeAll_fresh
        split: option.splits prod.splits)

section \<open>What the finalize handler asks of the Islands effect\<close>

text \<open>
  When both effects are available, the finalize handler applies the Threshold effect and
  then the Islands effect, the latter with the operation \<^verbatim>\<open>KEEP_LARGEST_ISLAND\<close> and the
  minimum size 1000. Which voxels the Islands effect keeps is decided by the host.
\<close>

lemma finalize_applies_largest_island:
  assumes "lastThresholdMin s = Some thMin" and "lastThresholdMax s = Some thMax"
    and "segmentationNode3D s = Some seg" and "truthy (segmentId3D s)"
    and "outputSelector s = Some vol"
    and "effectAvailable h ''Threshold''" and "effectAvailable h ''Islands''"
  shows "\<exists>ps1 ps2 rest.
           trace (world (state_of (onApplyThresholdShow3D h s)))
             = trace (world s) @ [EffectApply ''Threshold'' ps1, EffectApply ''Islands'' ps2] @ rest
           \<and> map_of ps2 ''Operation'' = Some ''KEEP_LARGEST_ISLAND''
           \<and> map_of ps2 ''MinimumSize'' = Some ''1000''"
  using assms
  by (auto simp: onApplyThresholdShow3D_def
        onApplyThresholdShow3D_try_def select_in_editor_def setActiveEffectByName_def
        setParameter_def onApply_def show3D_def in_world_def emit_def Let_def
        map_of_effect_parameters update_conv'
        split: option.splits outcome.splits)

end
